theory Spec2Isabelle
  imports Main
begin

section \<open>Tensors, errors and the layers of the tensor library\<close>

text \<open>
  The module \<^verbatim>\<open>UNet.py\<close> assembles layers of the tensor library into one graph. The
  embedding follows a tensor through that graph by its shape
  \<open>(batch, channels, height, width)\<close> and by a symbolic value that records which
  operation produced it from which operands, in order. The numbers stored in a tensor
  are floating point and are not modelled.
\<close>

datatype module =
    Conv2d nat nat nat nat bool
      \<comment> \<open>in_channels, out_channels, kernel_size, padding, bias; stride 1, dilation 1\<close>
  | BatchNorm2d nat
  | ReLU bool
      \<comment> \<open>the inplace flag\<close>
  | MaxPool2d nat nat
      \<comment> \<open>kernel_size, stride\<close>
  | Upsample nat string bool
      \<comment> \<open>scale_factor, mode, align_corners\<close>
  | ConvTranspose2d nat nat nat nat
      \<comment> \<open>in_channels, out_channels, kernel_size, stride\<close>
  | Sequential "module list"

datatype tval =
    Data nat
      \<comment> \<open>the contents of a tensor handed in from outside, under a tag\<close>
  | Layer module tval
  | Pad "int list" tval
  | Cat "tval list" nat

record tensor =
  batch :: nat
  channels :: nat
  height :: nat
  width :: nat
  val :: tval

text \<open>
  The library raises Python exceptions; each constructor is one of the checks a layer of
  this graph can fail, named after the library's message.
\<close>

datatype error =
    ChannelMismatch
      \<comment> \<open>RuntimeError: expected input to have k channels, but got c channels instead;
          running_mean should contain k elements\<close>
  | NoOutputChannels
      \<comment> \<open>RuntimeError: expected weight to be at least 1 at dimension 0; a weight
          without elements\<close>
  | KernelTooLarge
      \<comment> \<open>RuntimeError: Kernel size can't be greater than actual input size\<close>
  | OutputTooSmall
      \<comment> \<open>RuntimeError: Output size is too small\<close>
  | EmptyInput
      \<comment> \<open>RuntimeError: Input and output sizes should be greater than 0\<close>
  | ExpectedNonEmpty
      \<comment> \<open>RuntimeError: Expected 3D or 4D (batch mode) tensor with optional 0 dim batch
          size for input\<close>
  | SingleValuePerChannel
      \<comment> \<open>ValueError: Expected more than 1 value per channel when training\<close>
  | NegativeOutputSize
      \<comment> \<open>RuntimeError: padding resulted in a negative output size\<close>
  | CropTooLarge
      \<comment> \<open>RuntimeError: start + length exceeds dimension size\<close>
  | SizesMustMatch
      \<comment> \<open>RuntimeError: Sizes of tensors must match except in dimension 1\<close>

definition bind :: "error + 'a \<Rightarrow> ('a \<Rightarrow> error + 'b) \<Rightarrow> error + 'b" where
  "bind r f = (case r of Inl e \<Rightarrow> Inl e | Inr x \<Rightarrow> f x)"

definition sizes :: "tensor \<Rightarrow> nat \<times> nat \<times> nat \<times> nat" where
  "sizes x = (batch x, channels x, height x, width x)"

subsection \<open>Library layers\<close>

text \<open>
  The layers are the tensor library's, not this repository's; each definition is the
  library's documented shape rule together with the checks it makes before computing.

  \<^verbatim>\<open>nn.Conv2d(cin, cout, kernel_size=k, padding=p)\<close>, stride 1: the weight needs at
  least one output channel, the input needs \<open>cin\<close> channels, and the padded input must
  not be smaller than the kernel. The output has \<open>cout\<close> channels and
  \<open>size + 2 p - k + 1\<close> rows and columns; a convolution constructed for no input
  channels has nothing to compute from and returns a tensor without channels.
\<close>

definition conv2d :: "nat \<Rightarrow> nat \<Rightarrow> nat \<Rightarrow> nat \<Rightarrow> bool \<Rightarrow> tensor \<Rightarrow> error + tensor" where
  "conv2d cin cout k p b x =
     (if cout = 0 then Inl NoOutputChannels
      else if channels x \<noteq> cin then Inl ChannelMismatch
      else if height x + 2 * p < k \<or> width x + 2 * p < k then Inl KernelTooLarge
      else Inr \<lparr>batch = batch x, channels = (if cin = 0 then 0 else cout),
                height = height x + 2 * p + 1 - k, width = width x + 2 * p + 1 - k,
                val = Layer (Conv2d cin cout k p b) (val x)\<rparr>)"

text \<open>
  \<^verbatim>\<open>nn.BatchNorm2d(c)\<close>: a module in training mode normalises with the statistics of
  the batch and refuses a batch with a single value per channel; then the input needs
  \<open>c\<close> channels. The shape is unchanged.
\<close>

definition batch_norm2d :: "bool \<Rightarrow> nat \<Rightarrow> tensor \<Rightarrow> error + tensor" where
  "batch_norm2d training c x =
     (if training \<and> batch x * height x * width x = 1 then Inl SingleValuePerChannel
      else if channels x \<noteq> c then Inl ChannelMismatch
      else Inr (x\<lparr>val := Layer (BatchNorm2d c) (val x)\<rparr>))"

definition relu :: "bool \<Rightarrow> tensor \<Rightarrow> error + tensor" where
  "relu inplace x = Inr (x\<lparr>val := Layer (ReLU inplace) (val x)\<rparr>)"

text \<open>
  \<^verbatim>\<open>nn.MaxPool2d(k, stride=s)\<close>, no padding, floor mode: the output has
  \<open>(size - k) div s + 1\<close> rows and columns. The library refuses an input without
  channels, rows or columns, and an input smaller than the window, whose output would
  be empty.
\<close>

definition max_pool2d :: "nat \<Rightarrow> nat \<Rightarrow> tensor \<Rightarrow> error + tensor" where
  "max_pool2d k s x =
     (if channels x = 0 \<or> height x = 0 \<or> width x = 0 then Inl ExpectedNonEmpty
      else if height x < k \<or> width x < k then Inl OutputTooSmall
      else Inr (x\<lparr>height := (height x - k) div s + 1, width := (width x - k) div s + 1,
                 val := Layer (MaxPool2d k s) (val x)\<rparr>))"

text \<open>
  \<^verbatim>\<open>nn.Upsample(scale_factor=f, mode=m, align_corners=a)\<close>: rows and columns are
  multiplied by \<open>f\<close>, channels are kept; an input without channels, rows or columns is
  refused.
\<close>

definition upsample :: "nat \<Rightarrow> string \<Rightarrow> bool \<Rightarrow> tensor \<Rightarrow> error + tensor" where
  "upsample f m a x =
     (if channels x = 0 \<or> height x = 0 \<or> width x = 0 then Inl EmptyInput
      else Inr (x\<lparr>height := height x * f, width := width x * f,
                 val := Layer (Upsample f m a) (val x)\<rparr>))"

text \<open>
  \<^verbatim>\<open>nn.ConvTranspose2d(cin, cout, kernel_size=k, stride=s)\<close>, no padding: the input
  needs \<open>cin\<close> channels, and the weight needs at least one input and one output
  channel; the output has \<open>cout\<close> channels and \<open>(size - 1) s + k\<close> rows and columns.
\<close>

definition conv_transpose2d :: "nat \<Rightarrow> nat \<Rightarrow> nat \<Rightarrow> nat \<Rightarrow> tensor \<Rightarrow> error + tensor" where
  "conv_transpose2d cin cout k s x =
     (if cin = 0 \<or> cout = 0 then Inl NoOutputChannels
      else if channels x \<noteq> cin then Inl ChannelMismatch
      else if height x = 0 \<or> width x = 0 then Inl EmptyInput
      else Inr \<lparr>batch = batch x, channels = cout,
                height = (height x - 1) * s + k, width = (width x - 1) * s + k,
                val = Layer (ConvTranspose2d cin cout k s) (val x)\<rparr>)"

text \<open>
  \<^verbatim>\<open>F.pad(x, [left, right, top, bottom])\<close> in constant mode: the first pair belongs
  to the last axis (width), the second to the axis before it (height). An amount may be
  negative, which removes rows or columns: the library first removes, then adds. It
  refuses a removal of more rows or columns than the tensor has, and then a negative
  resulting size.
\<close>

definition F_pad :: "tensor \<Rightarrow> int \<times> int \<times> int \<times> int \<Rightarrow> error + tensor" where
  "F_pad x pads =
     (case pads of (pad_left, pad_right, pad_top, pad_bottom) \<Rightarrow>
        let new_h = int (height x) + pad_top + pad_bottom;
            new_w = int (width x) + pad_left + pad_right;
            cropped_h = int (height x) + min pad_top 0 + min pad_bottom 0;
            cropped_w = int (width x) + min pad_left 0 + min pad_right 0
        in if cropped_h < 0 \<or> cropped_w < 0 then Inl CropTooLarge
           else if new_h < 0 \<or> new_w < 0 then Inl NegativeOutputSize
           else Inr (x\<lparr>height := nat new_h, width := nat new_w,
                      val := Pad [pad_left, pad_right, pad_top, pad_bottom] (val x)\<rparr>))"

text \<open>
  \<^verbatim>\<open>torch.cat([a, b], dim=1)\<close>: all sizes but the channels must agree; the channels of
  \<open>a\<close> come first, then those of \<open>b\<close>.
\<close>

definition torch_cat :: "tensor \<Rightarrow> tensor \<Rightarrow> error + tensor" where
  "torch_cat a b =
     (if batch a \<noteq> batch b \<or> height a \<noteq> height b \<or> width a \<noteq> width b
      then Inl SizesMustMatch
      else Inr \<lparr>batch = batch a, channels = channels a + channels b,
                height = height a, width = width a,
                val = Cat [val a, val b] 1\<rparr>)"

text \<open>
  Calling a module. \<^verbatim>\<open>nn.Sequential\<close> feeds each layer's output to the next and
  stops at the first exception. The flag is the module's training mode, which every
  submodule shares.
\<close>

fun forward :: "bool \<Rightarrow> module \<Rightarrow> tensor \<Rightarrow> error + tensor"
  and forward_seq :: "bool \<Rightarrow> module list \<Rightarrow> tensor \<Rightarrow> error + tensor" where
  "forward training (Conv2d cin cout k p b) x = conv2d cin cout k p b x"
| "forward training (BatchNorm2d c) x = batch_norm2d training c x"
| "forward training (ReLU inplace) x = relu inplace x"
| "forward training (MaxPool2d k s) x = max_pool2d k s x"
| "forward training (Upsample f m a) x = upsample f m a x"
| "forward training (ConvTranspose2d cin cout k s) x = conv_transpose2d cin cout k s x"
| "forward training (Sequential ms) x = forward_seq training ms x"
| "forward_seq training [] x = Inr x"
| "forward_seq training (m # ms) x = bind (forward training m x) (forward_seq training ms)"

section \<open>The blocks of UNet.py\<close>

definition DoubleConv :: "nat \<Rightarrow> nat \<Rightarrow> nat option \<Rightarrow> module" where
  "DoubleConv in_channels out_channels mid_channels =
     (let mid_channels = (case mid_channels of None \<Rightarrow> out_channels | Some m \<Rightarrow> m)
      in Sequential
           [Conv2d in_channels mid_channels 3 1 False,
            BatchNorm2d mid_channels,
            ReLU True,
            Conv2d mid_channels out_channels 3 1 False,
            BatchNorm2d out_channels,
            ReLU True])"

definition Down :: "nat \<Rightarrow> nat \<Rightarrow> module" where
  "Down in_channels out_channels =
     Sequential [MaxPool2d 2 2, DoubleConv in_channels out_channels None]"

record up_block =
  up :: module
  conv :: module

definition Up :: "nat \<Rightarrow> nat \<Rightarrow> bool \<Rightarrow> up_block" where
  "Up in_channels out_channels bilinear =
     (if bilinear
      then \<lparr>up = Upsample 2 ''bilinear'' True,
            conv = DoubleConv in_channels out_channels (Some (in_channels div 2))\<rparr>
      else \<lparr>up = ConvTranspose2d in_channels (in_channels div 2) 2 2,
            conv = DoubleConv in_channels out_channels None\<rparr>)"

definition Up_forward :: "bool \<Rightarrow> up_block \<Rightarrow> tensor \<Rightarrow> tensor \<Rightarrow> error + tensor" where
  "Up_forward training self x1 x2 =
     bind (forward training (up self) x1) (\<lambda>x1.
       let diff_y = int (height x2) - int (height x1);
           diff_x = int (width x2) - int (width x1)
       in bind (F_pad x1 (diff_x div 2, diff_x - diff_x div 2,
                          diff_y div 2, diff_y - diff_y div 2)) (\<lambda>x1.
            bind (torch_cat x2 x1) (\<lambda>x.
              forward training (conv self) x)))"

definition OutConv :: "nat \<Rightarrow> nat \<Rightarrow> module" where
  "OutConv in_channels num_classes = Sequential [Conv2d in_channels num_classes 1 0 True]"

record unet =
  in_channels :: nat
  num_classes :: nat
  bilinear :: bool
  in_conv :: module
  down1 :: module
  down2 :: module
  down3 :: module
  down4 :: module
  up1 :: up_block
  up2 :: up_block
  up3 :: up_block
  up4 :: up_block
  out_conv :: module

definition UNet :: "nat \<Rightarrow> nat \<Rightarrow> bool \<Rightarrow> nat \<Rightarrow> unet" where
  "UNet in_ch n_classes bilin base_c =
     (let factor = (if bilin then 2 else 1) in
      \<lparr>in_channels = in_ch,
       num_classes = n_classes,
       bilinear = bilin,
       in_conv = DoubleConv in_ch base_c None,
       down1 = Down base_c (base_c * 2),
       down2 = Down (base_c * 2) (base_c * 4),
       down3 = Down (base_c * 4) (base_c * 8),
       down4 = Down (base_c * 8) (base_c * 16 div factor),
       up1 = Up (base_c * 16) (base_c * 8 div factor) bilin,
       up2 = Up (base_c * 8) (base_c * 4 div factor) bilin,
       up3 = Up (base_c * 4) (base_c * 2 div factor) bilin,
       up4 = Up (base_c * 2) base_c bilin,
       out_conv = OutConv base_c n_classes\<rparr>)"

definition UNet_forward :: "bool \<Rightarrow> unet \<Rightarrow> tensor \<Rightarrow> error + tensor" where
  "UNet_forward training self x =
     bind (forward training (in_conv self) x) (\<lambda>x1.
     bind (forward training (down1 self) x1) (\<lambda>x2.
     bind (forward training (down2 self) x2) (\<lambda>x3.
     bind (forward training (down3 self) x3) (\<lambda>x4.
     bind (forward training (down4 self) x4) (\<lambda>x5.
     bind (Up_forward training (up1 self) x5 x4) (\<lambda>x.
     bind (Up_forward training (up2 self) x x3) (\<lambda>x.
     bind (Up_forward training (up3 self) x x2) (\<lambda>x.
     bind (Up_forward training (up4 self) x x1) (\<lambda>x.
     forward training (out_conv self) x)))))))))"


section \<open>Instrumented runs\<close>

text \<open>
  The forward passes above return only their last tensor. The claims also speak about
  the tensors in between, so two prefixes of \<^verbatim>\<open>Up.forward\<close> and an instrumented copy
  of \<^verbatim>\<open>UNet.forward\<close> return them; lemmas below tie each to the forward pass it
  instruments.
\<close>

definition Up_pad :: "bool \<Rightarrow> up_block \<Rightarrow> tensor \<Rightarrow> tensor \<Rightarrow> error + tensor" where
  \<comment> \<open>\<^verbatim>\<open>x1\<close> after the call of \<^verbatim>\<open>F.pad\<close>\<close>
  "Up_pad training self x1 x2 =
     bind (forward training (up self) x1) (\<lambda>x1.
       let diff_y = int (height x2) - int (height x1);
           diff_x = int (width x2) - int (width x1)
       in F_pad x1 (diff_x div 2, diff_x - diff_x div 2,
                    diff_y div 2, diff_y - diff_y div 2))"

definition Up_concat :: "bool \<Rightarrow> up_block \<Rightarrow> tensor \<Rightarrow> tensor \<Rightarrow> error + tensor" where
  \<comment> \<open>\<^verbatim>\<open>x\<close> after the call of \<^verbatim>\<open>torch.cat\<close>\<close>
  "Up_concat training self x1 x2 = bind (Up_pad training self x1 x2) (torch_cat x2)"

record stages =
  enc1 :: tensor
  enc2 :: tensor
  enc3 :: tensor
  enc4 :: tensor
  enc5 :: tensor
  dec1 :: tensor
  dec2 :: tensor
  dec3 :: tensor
  dec4 :: tensor

definition UNet_features :: "bool \<Rightarrow> unet \<Rightarrow> tensor \<Rightarrow> error + stages" where
  \<comment> \<open>\<^verbatim>\<open>UNet.forward\<close> up to the call of \<^verbatim>\<open>out_conv\<close>: \<open>enc1\<close> to \<open>enc5\<close> are its
      variables \<^verbatim>\<open>x1\<close> to \<^verbatim>\<open>x5\<close>, \<open>dec1\<close> to \<open>dec4\<close> the values its variable \<^verbatim>\<open>x\<close>
      takes after \<^verbatim>\<open>up1\<close> to \<^verbatim>\<open>up4\<close>\<close>
  "UNet_features training self x =
     bind (forward training (in_conv self) x) (\<lambda>x1.
     bind (forward training (down1 self) x1) (\<lambda>x2.
     bind (forward training (down2 self) x2) (\<lambda>x3.
     bind (forward training (down3 self) x3) (\<lambda>x4.
     bind (forward training (down4 self) x4) (\<lambda>x5.
     bind (Up_forward training (up1 self) x5 x4) (\<lambda>y1.
     bind (Up_forward training (up2 self) y1 x3) (\<lambda>y2.
     bind (Up_forward training (up3 self) y2 x2) (\<lambda>y3.
     bind (Up_forward training (up4 self) y3 x1) (\<lambda>y4.
     Inr \<lparr>enc1 = x1, enc2 = x2, enc3 = x3, enc4 = x4, enc5 = x5,
          dec1 = y1, dec2 = y2, dec3 = y3, dec4 = y4\<rparr>)))))))))"

definition stage_channels :: "stages \<Rightarrow> nat list" where
  "stage_channels s =
     map channels [enc1 s, enc2 s, enc3 s, enc4 s, enc5 s, dec1 s, dec2 s, dec3 s, dec4 s]"


definition input_tensor :: "nat \<Rightarrow> nat \<Rightarrow> nat \<Rightarrow> nat \<Rightarrow> tensor" where
  \<comment> \<open>a tensor of shape \<open>(n, c, h, w)\<close> handed to the module from outside\<close>
  "input_tensor n c h w = \<lparr>batch = n, channels = c, height = h, width = w, val = Data 0\<rparr>"

definition DoubleConv_val :: "nat \<Rightarrow> nat \<Rightarrow> nat \<Rightarrow> tval \<Rightarrow> tval" where
  \<comment> \<open>the value a \<^verbatim>\<open>DoubleConv\<close> with the given input, output and middle channel counts
      computes from \<open>v\<close>\<close>
  "DoubleConv_val ci co m v =
     Layer (ReLU True) (Layer (BatchNorm2d co) (Layer (Conv2d m co 3 1 False)
       (Layer (ReLU True) (Layer (BatchNorm2d m) (Layer (Conv2d ci m 3 1 False) v)))))"

definition UNet_error :: "bool \<Rightarrow> nat \<Rightarrow> nat \<Rightarrow> nat \<Rightarrow> tensor \<Rightarrow> error option" where
  \<comment> \<open>the first check that fails when \<^verbatim>\<open>UNet.forward\<close> runs on \<open>x\<close>, if any; a lemma
      below shows that this is what the forward pass raises\<close>
  "UNet_error training in_ch n_classes base_c x =
     (let n = batch x; h = height x; w = width x in
      if base_c = 0 then Some NoOutputChannels
      else if channels x \<noteq> in_ch then Some ChannelMismatch
      else if h = 0 \<or> w = 0 then Some KernelTooLarge
      else if training \<and> n * h * w = 1 then Some SingleValuePerChannel
      else if in_ch = 0 then Some ChannelMismatch
      else if h < 2 \<or> w < 2 then Some OutputTooSmall
      else if training \<and> n * (h div 2) * (w div 2) = 1 then Some SingleValuePerChannel
      else if h div 2 < 2 \<or> w div 2 < 2 then Some OutputTooSmall
      else if training \<and> n * (h div 4) * (w div 4) = 1 then Some SingleValuePerChannel
      else if h div 4 < 2 \<or> w div 4 < 2 then Some OutputTooSmall
      else if training \<and> n * (h div 8) * (w div 8) = 1 then Some SingleValuePerChannel
      else if h div 8 < 2 \<or> w div 8 < 2 then Some OutputTooSmall
      else if training \<and> n * (h div 16) * (w div 16) = 1 then Some SingleValuePerChannel
      else if n_classes = 0 then Some NoOutputChannels
      else None)"

section \<open>The blocks as the specification describes them\<close>

text \<open>
  ConvBlock: two passes of (3x3 convolution with padding 1 and no bias, per-channel
  batch normalisation, rectifier), the first from \<open>C_in\<close> to \<open>C_mid\<close>, the second from
  \<open>C_mid\<close> to \<open>C_out\<close>; \<open>C_mid\<close> defaults to \<open>C_out\<close>.
\<close>

definition spec_pass :: "nat \<Rightarrow> nat \<Rightarrow> module list" where
  "spec_pass c_in c_out = [Conv2d c_in c_out 3 1 False, BatchNorm2d c_out, ReLU True]"

definition spec_ConvBlock :: "nat \<Rightarrow> nat \<Rightarrow> nat option \<Rightarrow> module" where
  "spec_ConvBlock c_in c_out c_mid =
     Sequential (spec_pass c_in (case c_mid of None \<Rightarrow> c_out | Some m \<Rightarrow> m) @
                 spec_pass (case c_mid of None \<Rightarrow> c_out | Some m \<Rightarrow> m) c_out)"

text \<open>DownBlock: 2x2 max-pooling with stride 2, then one ConvBlock.\<close>

definition spec_DownBlock :: "nat \<Rightarrow> nat \<Rightarrow> module" where
  "spec_DownBlock c_in c_out = Sequential [MaxPool2d 2 2, spec_ConvBlock c_in c_out None]"

text \<open>
  UpBlock, steps 1 to 5: upsample \<open>x1\<close> by factor 2 (corner-aligned bilinear
  interpolation, or a transpose-convolution from \<open>C\<close> to \<open>C div 2\<close> channels); take the
  differences of height and width between \<open>x2\<close> and the upsampled \<open>x1\<close>; pad by
  \<open>difference div 2\<close> on the leading edge and the remainder on the trailing edge of each
  axis; concatenate \<open>x2\<close> and the padded \<open>x1\<close> along the channels, \<open>x2\<close> first; apply the
  ConvBlock.
\<close>

definition spec_upsample :: "bool \<Rightarrow> nat \<Rightarrow> tensor \<Rightarrow> error + tensor" where
  "spec_upsample bilinear_flag c x =
     (if bilinear_flag then upsample 2 ''bilinear'' True x
      else conv_transpose2d c (c div 2) 2 2 x)"

definition spec_pad :: "tensor \<Rightarrow> tensor \<Rightarrow> error + tensor" where
  "spec_pad u x2 =
     (let dh = int (height x2) - int (height u);
          dw = int (width x2) - int (width u);
          lead_h = dh div 2; trail_h = dh - lead_h;
          lead_w = dw div 2; trail_w = dw - lead_w
      in F_pad u (lead_w, trail_w, lead_h, trail_h))"

definition spec_UpBlock :: "bool \<Rightarrow> bool \<Rightarrow> nat \<Rightarrow> module \<Rightarrow> tensor \<Rightarrow> tensor \<Rightarrow> error + tensor" where
  "spec_UpBlock training bilinear_flag c conv_block x1 x2 =
     bind (spec_upsample bilinear_flag c x1) (\<lambda>u.
     bind (spec_pad u x2) (\<lambda>p.
     bind (torch_cat x2 p) (\<lambda>x.
     forward training conv_block x)))"

section \<open>Lemmas about the layers and blocks\<close>

lemma bind_Inl [simp]: "bind (Inl e) f = Inl e"
  by (simp add: bind_def)

lemma bind_Inr [simp]: "bind (Inr x) f = f x"
  by (simp add: bind_def)

lemma bind_return [simp]: "bind r Inr = r"
  by (cases r) simp_all

lemma bind_assoc: "bind (bind r f) g = bind r (\<lambda>x. bind (f x) g)"
  by (cases r) simp_all

lemma bind_eq_Inr: "bind r f = Inr y \<longleftrightarrow> (\<exists>z. r = Inr z \<and> f z = Inr y)"
  by (cases r) simp_all

lemma forward_seq_Nil [simp]: "forward_seq training [] = Inr"
  by (rule ext) simp

lemma forward_DoubleConv:
  "forward tr (DoubleConv ci co mid) x =
     (let m = (case mid of None \<Rightarrow> co | Some m \<Rightarrow> m) in
      if m = 0 then Inl NoOutputChannels
      else if channels x \<noteq> ci then Inl ChannelMismatch
      else if height x = 0 \<or> width x = 0 then Inl KernelTooLarge
      else if tr \<and> batch x * height x * width x = 1 then Inl SingleValuePerChannel
      else if ci = 0 then Inl ChannelMismatch
      else if co = 0 then Inl NoOutputChannels
      else Inr \<lparr>batch = batch x, channels = co, height = height x, width = width x,
                val = DoubleConv_val ci co m (val x)\<rparr>)"
  by (auto simp: DoubleConv_def DoubleConv_val_def Let_def conv2d_def batch_norm2d_def relu_def
      split: option.splits)

lemma DoubleConv_Inr:
  "forward tr (DoubleConv ci co mid) x = Inr y \<longleftrightarrow>
     (0 < (case mid of None \<Rightarrow> co | Some m \<Rightarrow> m) \<and> 0 < co \<and> channels x = ci \<and>
      0 < ci \<and>
      0 < height x \<and> 0 < width x \<and> (tr \<longrightarrow> batch x * height x * width x \<noteq> 1) \<and>
      y = \<lparr>batch = batch x, channels = co, height = height x, width = width x,
            val = DoubleConv_val ci co (case mid of None \<Rightarrow> co | Some m \<Rightarrow> m) (val x)\<rparr>)"
  by (auto simp: forward_DoubleConv Let_def)

lemma halve: "2 \<le> n \<Longrightarrow> (n - 2) div 2 + 1 = n div (2::nat)"
  by (simp add: le_div_geq)

lemma forward_Down:
  "forward tr (Down ci co) x =
     (if channels x = 0 \<or> height x = 0 \<or> width x = 0 then Inl ExpectedNonEmpty
      else if height x < 2 \<or> width x < 2 then Inl OutputTooSmall
      else forward tr (DoubleConv ci co None)
             (x\<lparr>height := height x div 2, width := width x div 2,
                val := Layer (MaxPool2d 2 2) (val x)\<rparr>))"
  using halve [of "height x"] halve [of "width x"]
  by (simp add: Down_def max_pool2d_def not_less)

lemma Down_Inr:
  "forward tr (Down ci co) x = Inr y \<longleftrightarrow>
     (0 < co \<and> channels x = ci \<and> 0 < ci \<and> 2 \<le> height x \<and> 2 \<le> width x \<and>
      (tr \<longrightarrow> batch x * (height x div 2) * (width x div 2) \<noteq> 1) \<and>
      y = \<lparr>batch = batch x, channels = co, height = height x div 2, width = width x div 2,
            val = DoubleConv_val ci co co (Layer (MaxPool2d 2 2) (val x))\<rparr>)"
  by (auto simp: forward_Down DoubleConv_Inr)

lemma double: "n \<noteq> 0 \<Longrightarrow> (n - 1) * 2 + 2 = n * (2::nat)"
  by (cases n) simp_all

lemma up_Inr:
  "forward tr (up (Up ci co bl)) x = Inr u \<longleftrightarrow>
     ((if bl then 0 < channels x else 0 < ci div 2 \<and> channels x = ci) \<and>
      0 < height x \<and> 0 < width x \<and>
      u = \<lparr>batch = batch x, channels = (if bl then channels x else ci div 2),
            height = height x * 2, width = width x * 2,
            val = Layer (up (Up ci co bl)) (val x)\<rparr>)"
  using double [of "height x"] double [of "width x"]
  by (cases bl) (auto simp: Up_def upsample_def conv_transpose2d_def)

lemma pad_fits:
  fixes a t :: nat
  shows "\<not> int a + (int t - int a) div 2 + (int t - int a - (int t - int a) div 2) < 0"
    and "\<not> int a + min ((int t - int a) div 2) 0 +
            min (int t - int a - (int t - int a) div 2) 0 < 0"
    and "nat (int a + (int t - int a) div 2 + (int t - int a - (int t - int a) div 2)) = t"
proof -
  show "\<not> int a + (int t - int a) div 2 + (int t - int a - (int t - int a) div 2) < 0"
    by simp
  show "nat (int a + (int t - int a) div 2 + (int t - int a - (int t - int a) div 2)) = t"
    by simp
  show "\<not> int a + min ((int t - int a) div 2) 0 +
            min (int t - int a - (int t - int a) div 2) 0 < 0"
  proof (cases "int t - int a < 0")
    case True
    then have "(int t - int a) div 2 \<le> 0" "int t - int a - (int t - int a) div 2 \<le> 0"
      by linarith+
    then show ?thesis by (simp add: min_def)
  next
    case False
    then have "0 \<le> (int t - int a) div 2" "0 \<le> int t - int a - (int t - int a) div 2"
      by linarith+
    then show ?thesis by (simp add: min_def)
  qed
qed

lemma Up_pad_Inr:
  "Up_pad tr self x1 x2 = Inr p \<longleftrightarrow>
     (\<exists>u. forward tr (up self) x1 = Inr u \<and>
        p = u\<lparr>height := height x2, width := width x2,
               val := Pad [(int (width x2) - int (width u)) div 2,
                           int (width x2) - int (width u) - (int (width x2) - int (width u)) div 2,
                           (int (height x2) - int (height u)) div 2,
                           int (height x2) - int (height u) - (int (height x2) - int (height u)) div 2]
                        (val u)\<rparr>)"
  by (auto simp: Up_pad_def bind_eq_Inr F_pad_def Let_def pad_fits)

lemma Up_concat_Inr:
  "Up_concat tr self x1 x2 = Inr c \<longleftrightarrow>
     (\<exists>u. forward tr (up self) x1 = Inr u \<and> batch u = batch x2 \<and>
        c = \<lparr>batch = batch x2, channels = channels x2 + channels u,
              height = height x2, width = width x2,
              val = Cat [val x2,
                     Pad [(int (width x2) - int (width u)) div 2,
                          int (width x2) - int (width u) - (int (width x2) - int (width u)) div 2,
                          (int (height x2) - int (height u)) div 2,
                          int (height x2) - int (height u) - (int (height x2) - int (height u)) div 2]
                       (val u)] 1\<rparr>)"
  by (cases "forward tr (up self) x1")
    (auto simp: Up_concat_def Up_pad_def F_pad_def torch_cat_def Let_def pad_fits)

lemma Up_forward_concat:
  "Up_forward tr self x1 x2 = bind (Up_concat tr self x1 x2) (forward tr (conv self))"
  by (simp add: Up_forward_def Up_concat_def Up_pad_def bind_assoc Let_def)

lemma UNet_forward_features:
  "UNet_forward tr self x =
     bind (UNet_features tr self x) (\<lambda>s. forward tr (out_conv self) (dec4 s))"
  by (simp add: UNet_forward_def UNet_features_def bind_assoc)

lemma forward_OutConv:
  "forward tr (OutConv ci k) x =
     (if k = 0 then Inl NoOutputChannels
      else if channels x \<noteq> ci then Inl ChannelMismatch
      else if height x = 0 \<or> width x = 0 then Inl KernelTooLarge
      else Inr \<lparr>batch = batch x, channels = (if ci = 0 then 0 else k),
                height = height x, width = width x,
                val = Layer (Conv2d ci k 1 0 True) (val x)\<rparr>)"
  by (auto simp: OutConv_def conv2d_def)

lemma OutConv_Inr:
  "forward tr (OutConv ci k) x = Inr y \<longleftrightarrow>
     (0 < k \<and> channels x = ci \<and> 0 < height x \<and> 0 < width x \<and>
      y = \<lparr>batch = batch x, channels = (if ci = 0 then 0 else k),
            height = height x, width = width x,
            val = Layer (Conv2d ci k 1 0 True) (val x)\<rparr>)"
  by (auto simp: forward_OutConv)


lemma conv_Up:
  "conv (Up ci co bl) = DoubleConv ci co (if bl then Some (ci div 2) else None)"
  by (simp add: Up_def)

lemma Up_Inr:
  "Up_forward tr (Up ci co bl) x1 x2 = Inr y \<longleftrightarrow>
     ((if bl then 0 < channels x1 else channels x1 = ci) \<and>
      0 < height x1 \<and> 0 < width x1 \<and> batch x1 = batch x2 \<and>
      0 < ci div 2 \<and> 0 < co \<and>
      channels x2 + (if bl then channels x1 else ci div 2) = ci \<and>
      0 < height x2 \<and> 0 < width x2 \<and> (tr \<longrightarrow> batch x2 * height x2 * width x2 \<noteq> 1) \<and>
      y = \<lparr>batch = batch x2, channels = co, height = height x2, width = width x2,
            val = DoubleConv_val ci co (if bl then ci div 2 else co)
                    (Cat [val x2,
                       Pad [(int (width x2) - int (width x1 * 2)) div 2,
                            int (width x2) - int (width x1 * 2) - (int (width x2) - int (width x1 * 2)) div 2,
                            (int (height x2) - int (height x1 * 2)) div 2,
                            int (height x2) - int (height x1 * 2) - (int (height x2) - int (height x1 * 2)) div 2]
                         (Layer (up (Up ci co bl)) (val x1))] 1)\<rparr>)"
  by (cases bl)
    (auto simp: Up_forward_concat bind_eq_Inr Up_concat_Inr up_Inr conv_Up DoubleConv_Inr)


lemma div16:
  fixes n :: nat
  shows "n div 2 div 2 = n div 4" "n div 4 div 2 = n div 8" "n div 8 div 2 = n div 16"
  by (simp_all add: div_mult2_eq [symmetric])

lemma ge16:
  fixes n :: nat
  assumes "16 \<le> n"
  shows "2 \<le> n" "2 \<le> n div 2" "2 \<le> n div 4" "2 \<le> n div 8" "0 < n div 16"
  using assms by simp_all

lemma prod_not_1:
  fixes n a c :: nat
  assumes "2 \<le> a"
  shows "n * a * c \<noteq> 1"
  using assms by auto

lemma DoubleConv_D:
  assumes "forward tr (DoubleConv ci co mid) x = Inr y"
  shows "0 < co" "channels x = ci" "0 < height x" "0 < width x"
    "tr \<longrightarrow> batch x * height x * width x \<noteq> 1"
    "batch y = batch x" "channels y = co" "height y = height x" "width y = width x"
    "0 < ci"
  using assms by (simp_all add: DoubleConv_Inr)

lemma DoubleConv_ok:
  assumes "0 < co" "0 < (case mid of None \<Rightarrow> co | Some m \<Rightarrow> m)" "channels x = ci"
    "0 < height x" "0 < width x" "tr \<longrightarrow> batch x * height x * width x \<noteq> 1"
    "0 < ci"
  shows "\<exists>y. forward tr (DoubleConv ci co mid) x = Inr y"
  using assms by (simp add: DoubleConv_Inr)

lemma Down_D:
  assumes "forward tr (Down ci co) x = Inr y"
  shows "0 < co" "channels x = ci" "2 \<le> height x" "2 \<le> width x"
    "tr \<longrightarrow> batch x * (height x div 2) * (width x div 2) \<noteq> 1"
    "batch y = batch x" "channels y = co" "height y = height x div 2" "width y = width x div 2"
    "0 < ci"
  using assms by (simp_all add: Down_Inr)

lemma Down_ok:
  assumes "0 < co" "channels x = ci" "2 \<le> height x" "2 \<le> width x"
    "tr \<longrightarrow> batch x * (height x div 2) * (width x div 2) \<noteq> 1"
    "0 < ci"
  shows "\<exists>y. forward tr (Down ci co) x = Inr y"
  using assms by (simp add: Down_Inr)

lemma Up_D:
  assumes "Up_forward tr (Up ci co bl) x1 x2 = Inr y"
  shows "0 < co" "0 < height x1" "0 < width x1" "batch x1 = batch x2"
    "0 < height x2" "0 < width x2" "tr \<longrightarrow> batch x2 * height x2 * width x2 \<noteq> 1"
    "batch y = batch x2" "channels y = co" "height y = height x2" "width y = width x2"
  using assms by (simp_all add: Up_Inr)

lemma Up_ok:
  assumes "0 < co" "0 < ci div 2" "channels x1 = (if bl then ci div 2 else ci)"
    "channels x2 + ci div 2 = ci" "0 < height x1" "0 < width x1" "batch x1 = batch x2"
    "0 < height x2" "0 < width x2" "tr \<longrightarrow> batch x2 * height x2 * width x2 \<noteq> 1"
  shows "\<exists>y. Up_forward tr (Up ci co bl) x1 x2 = Inr y"
  using assms by (cases bl) (auto simp: Up_Inr)

lemma UNet_sel:
  "in_conv (UNet ci k bl b) = DoubleConv ci b None"
  "down1 (UNet ci k bl b) = Down b (b * 2)"
  "down2 (UNet ci k bl b) = Down (b * 2) (b * 4)"
  "down3 (UNet ci k bl b) = Down (b * 4) (b * 8)"
  "down4 (UNet ci k bl b) = Down (b * 8) (b * 16 div (if bl then 2 else 1))"
  "up1 (UNet ci k bl b) = Up (b * 16) (b * 8 div (if bl then 2 else 1)) bl"
  "up2 (UNet ci k bl b) = Up (b * 8) (b * 4 div (if bl then 2 else 1)) bl"
  "up3 (UNet ci k bl b) = Up (b * 4) (b * 2 div (if bl then 2 else 1)) bl"
  "up4 (UNet ci k bl b) = Up (b * 2) b bl"
  "out_conv (UNet ci k bl b) = OutConv b k"
  by (simp_all add: UNet_def Let_def)

lemma UNet_features_stages:
  assumes "UNet_features tr u x = Inr s"
  shows "forward tr (in_conv u) x = Inr (enc1 s)"
    "forward tr (down1 u) (enc1 s) = Inr (enc2 s)"
    "forward tr (down2 u) (enc2 s) = Inr (enc3 s)"
    "forward tr (down3 u) (enc3 s) = Inr (enc4 s)"
    "forward tr (down4 u) (enc4 s) = Inr (enc5 s)"
    "Up_forward tr (up1 u) (enc5 s) (enc4 s) = Inr (dec1 s)"
    "Up_forward tr (up2 u) (dec1 s) (enc3 s) = Inr (dec2 s)"
    "Up_forward tr (up3 u) (dec2 s) (enc2 s) = Inr (dec3 s)"
    "Up_forward tr (up4 u) (dec3 s) (enc1 s) = Inr (dec4 s)"
  using assms by (auto simp: UNet_features_def bind_eq_Inr)

section \<open>Lemmas about the whole graph\<close>

lemma UNet_features_D:
  assumes "UNet_features tr (UNet ci k bl b) x = Inr s"
  shows "0 < b" "channels x = ci" "16 \<le> height x" "16 \<le> width x"
    "tr \<longrightarrow> batch x * (height x div 16) * (width x div 16) \<noteq> 1"
    "sizes (enc1 s) = (batch x, b, height x, width x)"
    "sizes (enc2 s) = (batch x, b * 2, height x div 2, width x div 2)"
    "sizes (enc3 s) = (batch x, b * 4, height x div 4, width x div 4)"
    "sizes (enc4 s) = (batch x, b * 8, height x div 8, width x div 8)"
    "sizes (enc5 s) = (batch x, b * 16 div (if bl then 2 else 1), height x div 16, width x div 16)"
    "sizes (dec1 s) = (batch x, b * 8 div (if bl then 2 else 1), height x div 8, width x div 8)"
    "sizes (dec2 s) = (batch x, b * 4 div (if bl then 2 else 1), height x div 4, width x div 4)"
    "sizes (dec3 s) = (batch x, b * 2 div (if bl then 2 else 1), height x div 2, width x div 2)"
    "sizes (dec4 s) = (batch x, b, height x, width x)"
    "0 < ci"
proof -
  note st = UNet_features_stages [OF assms, unfolded UNet_sel]
  note e1 = DoubleConv_D [OF st(1)]
  show "0 < ci" by (rule e1(10))
  note e2 = Down_D [OF st(2), unfolded e1(6-9)]
  note e3 = Down_D [OF st(3), unfolded e2(6-9) div16]
  note e4 = Down_D [OF st(4), unfolded e3(6-9) div16]
  note e5 = Down_D [OF st(5), unfolded e4(6-9) div16]
  note u1 = Up_D [OF st(6), unfolded e4(6-9) e5(6-9)]
  note u2 = Up_D [OF st(7), unfolded e3(6-9) u1(8-11)]
  note u3 = Up_D [OF st(8), unfolded e2(6-9) u2(8-11)]
  note u4 = Up_D [OF st(9), unfolded e1(6-9) u3(8-11)]
  show "0 < b" "channels x = ci" by (rule e1)+
  show "16 \<le> height x" using e5(3) by linarith
  show "16 \<le> width x" using e5(4) by linarith
  show "tr \<longrightarrow> batch x * (height x div 16) * (width x div 16) \<noteq> 1" by (rule e5(5))
  show "sizes (enc1 s) = (batch x, b, height x, width x)"
    by (simp add: sizes_def e1(6-9))
  show "sizes (enc2 s) = (batch x, b * 2, height x div 2, width x div 2)"
    by (simp add: sizes_def e2(6-9))
  show "sizes (enc3 s) = (batch x, b * 4, height x div 4, width x div 4)"
    by (simp add: sizes_def e3(6-9))
  show "sizes (enc4 s) = (batch x, b * 8, height x div 8, width x div 8)"
    by (simp add: sizes_def e4(6-9))
  show "sizes (enc5 s) = (batch x, b * 16 div (if bl then 2 else 1), height x div 16, width x div 16)"
    by (simp add: sizes_def e5(6-9))
  show "sizes (dec1 s) = (batch x, b * 8 div (if bl then 2 else 1), height x div 8, width x div 8)"
    by (simp add: sizes_def u1(8-11))
  show "sizes (dec2 s) = (batch x, b * 4 div (if bl then 2 else 1), height x div 4, width x div 4)"
    by (simp add: sizes_def u2(8-11))
  show "sizes (dec3 s) = (batch x, b * 2 div (if bl then 2 else 1), height x div 2, width x div 2)"
    by (simp add: sizes_def u3(8-11))
  show "sizes (dec4 s) = (batch x, b, height x, width x)"
    by (simp add: sizes_def u4(8-11))
qed


lemma UNet_features_I:
  assumes "forward tr (in_conv u) x = Inr a1"
    "forward tr (down1 u) a1 = Inr a2"
    "forward tr (down2 u) a2 = Inr a3"
    "forward tr (down3 u) a3 = Inr a4"
    "forward tr (down4 u) a4 = Inr a5"
    "Up_forward tr (up1 u) a5 a4 = Inr b1"
    "Up_forward tr (up2 u) b1 a3 = Inr b2"
    "Up_forward tr (up3 u) b2 a2 = Inr b3"
    "Up_forward tr (up4 u) b3 a1 = Inr b4"
  shows "UNet_features tr u x =
    Inr \<lparr>enc1 = a1, enc2 = a2, enc3 = a3, enc4 = a4, enc5 = a5,
         dec1 = b1, dec2 = b2, dec3 = b3, dec4 = b4\<rparr>"
  by (simp add: UNet_features_def assms)

lemma Up_stage_ok:
  assumes "0 < co" "0 < c" "ci = c * 2" "channels x1 = ci div (if bl then 2 else 1)"
    "channels x2 = c" "0 < height x1" "0 < width x1" "batch x1 = batch x2"
    "2 \<le> height x2" "2 \<le> width x2"
  shows "\<exists>y. Up_forward tr (Up ci co bl) x1 x2 = Inr y"
proof (rule Up_ok)
  show "0 < co" by fact
  show "0 < ci div 2" using assms(2,3) by simp
  show "channels x1 = (if bl then ci div 2 else ci)" using assms(4) by simp
  show "channels x2 + ci div 2 = ci" using assms(3,5) by simp
  show "0 < height x1" "0 < width x1" "batch x1 = batch x2" by fact+
  show "0 < height x2" "0 < width x2" using assms(9,10) by simp_all
  show "tr \<longrightarrow> batch x2 * height x2 * width x2 \<noteq> 1"
    using prod_not_1 [OF assms(9)] by simp
qed

lemma UNet_features_ok:
  assumes b: "0 < b" and c: "channels x = ci"
    and h: "16 \<le> height x" and w: "16 \<le> width x"
    and t: "tr \<longrightarrow> batch x * (height x div 16) * (width x div 16) \<noteq> 1"
    and ci: "0 < ci"
  shows "\<exists>s. UNet_features tr (UNet ci k bl b) x = Inr s"
proof -
  let ?u = "UNet ci k bl b"
  let ?f = "if bl then 2 else 1 :: nat"
  note hs = ge16 [OF h] and ws = ge16 [OF w]
  have f: "0 < b * 16 div ?f" "0 < b * 8 div ?f" "0 < b * 4 div ?f" "0 < b * 2 div ?f"
    using b by simp_all
  obtain a1 where a1: "forward tr (in_conv ?u) x = Inr a1"
    using DoubleConv_ok [of b None x ci tr] b c ci hs(1) ws(1)
      prod_not_1 [OF hs(1), of "batch x" "width x"]
    by (auto simp: UNet_sel mult.assoc mult.commute)
  note e1 = DoubleConv_D [OF a1 [unfolded UNet_sel]]
  obtain a2 where a2: "forward tr (down1 ?u) a1 = Inr a2"
    using Down_ok [of "b * 2" a1 b tr] b e1(6-9) hs ws prod_not_1 [OF hs(2)]
    by (auto simp: UNet_sel)
  note e2 = Down_D [OF a2 [unfolded UNet_sel], unfolded e1(6-9)]
  obtain a3 where a3: "forward tr (down2 ?u) a2 = Inr a3"
    using Down_ok [of "b * 4" a2 "b * 2" tr] b e2(6-9) hs ws prod_not_1 [OF hs(3)]
    by (auto simp: UNet_sel div16)
  note e3 = Down_D [OF a3 [unfolded UNet_sel], unfolded e2(6-9) div16]
  obtain a4 where a4: "forward tr (down3 ?u) a3 = Inr a4"
    using Down_ok [of "b * 8" a3 "b * 4" tr] b e3(6-9) hs ws prod_not_1 [OF hs(4)]
    by (auto simp: UNet_sel div16)
  note e4 = Down_D [OF a4 [unfolded UNet_sel], unfolded e3(6-9) div16]
  obtain a5 where a5: "forward tr (down4 ?u) a4 = Inr a5"
    using Down_ok [of "b * 16 div ?f" a4 "b * 8" tr] b f e4(6-9) hs ws t
    by (auto simp: UNet_sel div16)
  note e5 = Down_D [OF a5 [unfolded UNet_sel], unfolded e4(6-9) div16]
  have "\<exists>y. Up_forward tr (up1 ?u) a5 a4 = Inr y"
    unfolding UNet_sel using b hs ws
    by (intro Up_stage_ok [where c = "b * 8"]) (simp_all add: f e4(6-9) e5(6-9))
  then obtain b1 where b1: "Up_forward tr (up1 ?u) a5 a4 = Inr b1" ..
  note u1 = Up_D [OF b1 [unfolded UNet_sel], unfolded e4(6-9) e5(6-9)]
  have "\<exists>y. Up_forward tr (up2 ?u) b1 a3 = Inr y"
    unfolding UNet_sel using b hs ws
    by (intro Up_stage_ok [where c = "b * 4"]) (simp_all add: f e3(6-9) u1(8-11))
  then obtain b2 where b2: "Up_forward tr (up2 ?u) b1 a3 = Inr b2" ..
  note u2 = Up_D [OF b2 [unfolded UNet_sel], unfolded e3(6-9) u1(8-11)]
  have "\<exists>y. Up_forward tr (up3 ?u) b2 a2 = Inr y"
    unfolding UNet_sel using b hs ws
    by (intro Up_stage_ok [where c = "b * 2"]) (simp_all add: f e2(6-9) u2(8-11))
  then obtain b3 where b3: "Up_forward tr (up3 ?u) b2 a2 = Inr b3" ..
  note u3 = Up_D [OF b3 [unfolded UNet_sel], unfolded e2(6-9) u2(8-11)]
  have "\<exists>y. Up_forward tr (up4 ?u) b3 a1 = Inr y"
    unfolding UNet_sel using b hs ws
    by (intro Up_stage_ok [where c = b]) (simp_all add: f e1(6-9) u3(8-11))
  then obtain b4 where b4: "Up_forward tr (up4 ?u) b3 a1 = Inr b4" ..
  show ?thesis
    using UNet_features_I [OF a1 a2 a3 a4 a5 b1 b2 b3 b4] by blast
qed

lemma UNet_forward_D:
  assumes "UNet_forward tr (UNet ci k bl b) x = Inr y"
  shows "0 < b" "0 < k" "channels x = ci" "16 \<le> height x" "16 \<le> width x"
    "tr \<longrightarrow> batch x * (height x div 16) * (width x div 16) \<noteq> 1"
    "sizes y = (batch x, k, height x, width x)"
    "0 < ci"
proof -
  from assms obtain s where s: "UNet_features tr (UNet ci k bl b) x = Inr s"
    and y: "forward tr (OutConv b k) (dec4 s) = Inr y"
    by (auto simp: UNet_forward_features bind_eq_Inr UNet_sel)
  note d = UNet_features_D [OF s]
  show "0 < ci" by (rule d(15))
  from d(14) have d4: "batch (dec4 s) = batch x" "height (dec4 s) = height x"
    "width (dec4 s) = width x"
    by (simp_all add: sizes_def)
  show "0 < b" "channels x = ci" "16 \<le> height x" "16 \<le> width x"
    "tr \<longrightarrow> batch x * (height x div 16) * (width x div 16) \<noteq> 1"
    by (rule d)+
  from y show "0 < k" by (simp add: OutConv_Inr)
  from y d(1) show "sizes y = (batch x, k, height x, width x)"
    by (auto simp: OutConv_Inr sizes_def d4)
qed

lemma UNet_forward_ok:
  assumes "0 < b" "0 < k" "channels x = ci" "16 \<le> height x" "16 \<le> width x"
    and "tr \<longrightarrow> batch x * (height x div 16) * (width x div 16) \<noteq> 1"
    and "0 < ci"
  shows "\<exists>y. UNet_forward tr (UNet ci k bl b) x = Inr y"
proof -
  from UNet_features_ok [OF assms(1,3-7)]
  obtain s where s: "UNet_features tr (UNet ci k bl b) x = Inr s" ..
  from UNet_features_D(14) [OF s] assms(4,5)
  have "channels (dec4 s) = b" "0 < height (dec4 s)" "0 < width (dec4 s)"
    by (simp_all add: sizes_def)
  with assms(2) have "\<exists>y. forward tr (OutConv b k) (dec4 s) = Inr y"
    by (simp add: OutConv_Inr)
  with s show ?thesis
    by (simp add: UNet_forward_features UNet_sel)
qed

lemma DoubleConv_Inl:
  "forward tr (DoubleConv ci co None) x = Inl e \<longleftrightarrow>
     (if co = 0 then e = NoOutputChannels
      else if channels x \<noteq> ci then e = ChannelMismatch
      else if height x = 0 \<or> width x = 0 then e = KernelTooLarge
      else if tr \<and> batch x * height x * width x = 1 then e = SingleValuePerChannel
      else ci = 0 \<and> e = ChannelMismatch)"
  by (auto simp: forward_DoubleConv)

lemma Down_Inl:
  "forward tr (Down ci co) x = Inl e \<longleftrightarrow>
     (if channels x = 0 \<or> height x = 0 \<or> width x = 0 then e = ExpectedNonEmpty
      else if height x < 2 \<or> width x < 2 then e = OutputTooSmall
      else if co = 0 then e = NoOutputChannels
      else if channels x \<noteq> ci then e = ChannelMismatch
      else tr \<and> batch x * (height x div 2) * (width x div 2) = 1 \<and> e = SingleValuePerChannel)"
  by (auto simp: forward_Down DoubleConv_Inl)

lemma UNet_error_None:
  "UNet_error tr ci k b x = None \<longleftrightarrow>
     (0 < b \<and> 0 < k \<and> channels x = ci \<and> 16 \<le> height x \<and> 16 \<le> width x \<and>
      (tr \<longrightarrow> batch x * (height x div 16) * (width x div 16) \<noteq> 1) \<and> 0 < ci)"
proof
  assume "UNet_error tr ci k b x = None"
  then show "0 < b \<and> 0 < k \<and> channels x = ci \<and> 16 \<le> height x \<and> 16 \<le> width x \<and>
      (tr \<longrightarrow> batch x * (height x div 16) * (width x div 16) \<noteq> 1) \<and> 0 < ci"
    unfolding UNet_error_def Let_def
    by (simp split: if_splits) linarith
next
  assume a: "0 < b \<and> 0 < k \<and> channels x = ci \<and> 16 \<le> height x \<and> 16 \<le> width x \<and>
      (tr \<longrightarrow> batch x * (height x div 16) * (width x div 16) \<noteq> 1) \<and> 0 < ci"
  then have h: "16 \<le> height x" and w: "16 \<le> width x" by simp_all
  note hs = ge16 [OF h] and ws = ge16 [OF w]
  have p: "batch x * height x * width x \<noteq> 1" "batch x * (height x div 2) * (width x div 2) \<noteq> 1"
    "batch x * (height x div 4) * (width x div 4) \<noteq> 1"
    "batch x * (height x div 8) * (width x div 8) \<noteq> 1"
    by (rule prod_not_1, rule hs)+
  have "\<not> height x < 2" "\<not> height x div 2 < 2" "\<not> height x div 4 < 2" "\<not> height x div 8 < 2" 
     "\<not> width x < 2" "\<not> width x div 2 < 2" "\<not> width x div 4 < 2" "\<not> width x div 8 < 2"
     "height x \<noteq> 0" "width x \<noteq> 0"
    using hs ws by simp_all
  with a p show "UNet_error tr ci k b x = None"
    unfolding UNet_error_def Let_def by simp
qed


lemma UNet_forward_Inl_D:
  assumes "UNet_forward tr (UNet ci k bl b) x = Inl e"
  shows "UNet_error tr ci k b x = Some e"
proof (cases "forward tr (DoubleConv ci b None) x")
  case (Inl e0)
  with assms have "e0 = e" by (simp add: UNet_forward_def UNet_sel)
  with Inl show ?thesis
    by (simp add: DoubleConv_Inl UNet_error_def Let_def split: if_splits)
next
  case a1: (Inr a1)
  note e1 = DoubleConv_D [OF a1]
  have n1: "b \<noteq> 0" "channels x = ci" "\<not> (height x = 0 \<or> width x = 0)"
    "\<not> (tr \<and> batch x * height x * width x = 1)" "ci \<noteq> 0"
    using e1(1-5,10) by simp_all
  show ?thesis
  proof (cases "forward tr (Down b (b * 2)) a1")
    case (Inl e0)
    with assms a1 have "e0 = e" by (simp add: UNet_forward_def UNet_sel)
    with Inl n1 show ?thesis
      by (simp add: Down_Inl e1(6-9) UNet_error_def Let_def split: if_splits)
  next
    case a2: (Inr a2)
    note e2 = Down_D [OF a2, unfolded e1(6-9)]
    have n2: "\<not> (height x < 2 \<or> width x < 2)"
      "\<not> (tr \<and> batch x * (height x div 2) * (width x div 2) = 1)"
      "height x div 2 \<noteq> 0" "width x div 2 \<noteq> 0"
      using e2(3-5) by simp_all
    show ?thesis
    proof (cases "forward tr (Down (b * 2) (b * 4)) a2")
      case (Inl e0)
      with assms a1 a2 have "e0 = e" by (simp add: UNet_forward_def UNet_sel)
      with Inl n1 n2 show ?thesis
        by (simp add: Down_Inl e2(6-9) div16 UNet_error_def Let_def split: if_splits)
    next
      case a3: (Inr a3)
      note e3 = Down_D [OF a3, unfolded e2(6-9) div16]
      have n3: "\<not> (height x div 2 < 2 \<or> width x div 2 < 2)"
        "\<not> (tr \<and> batch x * (height x div 4) * (width x div 4) = 1)"
        "height x div 4 \<noteq> 0" "width x div 4 \<noteq> 0"
        using e3(3-5) by simp_all
      show ?thesis
      proof (cases "forward tr (Down (b * 4) (b * 8)) a3")
        case (Inl e0)
        with assms a1 a2 a3 have "e0 = e" by (simp add: UNet_forward_def UNet_sel)
        with Inl n1 n2 n3 show ?thesis
          by (simp add: Down_Inl e3(6-9) div16 UNet_error_def Let_def split: if_splits)
      next
        case a4: (Inr a4)
        note e4 = Down_D [OF a4, unfolded e3(6-9) div16]
        have n4: "\<not> (height x div 4 < 2 \<or> width x div 4 < 2)"
          "\<not> (tr \<and> batch x * (height x div 8) * (width x div 8) = 1)"
          "height x div 8 \<noteq> 0" "width x div 8 \<noteq> 0"
          using e4(3-5) by simp_all
        show ?thesis
        proof (cases "forward tr (Down (b * 8) (b * 16 div (if bl then 2 else 1))) a4")
          case (Inl e0)
          with assms a1 a2 a3 a4 have "e0 = e" by (simp add: UNet_forward_def UNet_sel)
          with Inl n1 n2 n3 n4 show ?thesis
            by (simp add: Down_Inl e4(6-9) div16 UNet_error_def Let_def split: if_splits)
        next
          case a5: (Inr a5)
          note e5 = Down_D [OF a5, unfolded e4(6-9) div16]
          have n5: "\<not> (height x div 8 < 2 \<or> width x div 8 < 2)"
            "\<not> (tr \<and> batch x * (height x div 16) * (width x div 16) = 1)"
            using e5(3-5) by simp_all
          have h: "16 \<le> height x" using e5(3) by linarith
          have w: "16 \<le> width x" using e5(4) by linarith
          from UNet_features_ok [OF e1(1,2) h w e5(5) e1(10)]
          obtain s where s: "UNet_features tr (UNet ci k bl b) x = Inr s" ..
          from UNet_features_D(14) [OF s] h w
          have d: "channels (dec4 s) = b" "height (dec4 s) \<noteq> 0" "width (dec4 s) \<noteq> 0"
            by (simp_all add: sizes_def)
          from assms s have "forward tr (OutConv b k) (dec4 s) = Inl e"
            by (simp add: UNet_forward_features UNet_sel)
          then have "k = 0" "e = NoOutputChannels"
            by (simp_all add: forward_OutConv d split: if_splits)
          with n1 n2 n3 n4 n5 show ?thesis
            by (simp add: UNet_error_def Let_def)
        qed
      qed
    qed
  qed
qed

lemma map_sum_eq_Inl: "map_sum id f r = Inl e \<longleftrightarrow> r = Inl e"
  by (cases r) simp_all

lemma map_sum_eq_Inr: "map_sum id f r = Inr v \<longleftrightarrow> (\<exists>y. r = Inr y \<and> f y = v)"
  by (cases r) simp_all

text \<open>
  What the forward pass does on every input and under every configuration: it raises
  the first failing check, and without one it returns the input's batch size, height
  and width with one channel per class.
\<close>

lemma UNet_forward_result:
  "map_sum id sizes (UNet_forward tr (UNet ci k bl b) x) =
     (case UNet_error tr ci k b x of
        Some e \<Rightarrow> Inl e
      | None \<Rightarrow> Inr (batch x, k, height x, width x))"
proof (cases "UNet_forward tr (UNet ci k bl b) x")
  case (Inl e)
  from UNet_forward_Inl_D [OF Inl] Inl show ?thesis by simp
next
  case (Inr y)
  note d = UNet_forward_D [OF Inr]
  from d(1-6,8) have "UNet_error tr ci k b x = None"
    by (simp add: UNet_error_None)
  with Inr d(7) show ?thesis by simp
qed

lemma UNet_forward_Inl:
  "UNet_forward tr (UNet ci k bl b) x = Inl e \<longleftrightarrow> UNet_error tr ci k b x = Some e"
  using UNet_forward_result [of tr ci k bl b x]
  by (cases "UNet_forward tr (UNet ci k bl b) x") (auto split: option.splits)

lemma input_tensor_sel [simp]:
  "batch (input_tensor n c h w) = n" "channels (input_tensor n c h w) = c"
  "height (input_tensor n c h w) = h" "width (input_tensor n c h w) = w"
  "val (input_tensor n c h w) = Data 0"
  by (simp_all add: input_tensor_def)

lemma DoubleConv_spec: "DoubleConv ci co mid = spec_ConvBlock ci co mid"
  by (simp add: DoubleConv_def spec_ConvBlock_def spec_pass_def Let_def)

lemma Down_spec: "Down ci co = spec_DownBlock ci co"
  by (simp add: Down_def spec_DownBlock_def DoubleConv_spec)

lemma forward_up:
  "forward training (up (Up c co bl)) x = spec_upsample bl c x"
  by (simp add: Up_def spec_upsample_def)

lemma Up_forward_spec:
  "Up_forward training (Up c co bl) x1 x2 =
     spec_UpBlock training bl c (conv (Up c co bl)) x1 x2"
  by (simp add: Up_forward_def spec_UpBlock_def spec_pad_def forward_up Let_def)

lemma spec_upsample_D:
  assumes "spec_upsample bl c x1 = Inr u"
  shows "height u = 2 * height x1" "width u = 2 * width x1"
    "channels u = (if bl then channels x1 else c div 2)" "batch u = batch x1"
  using assms up_Inr [of training c co bl x1 u]
  by (simp_all add: forward_up)

lemma spec_pad_Inr:
  "spec_pad u x2 = Inr p \<longleftrightarrow>
     p = u\<lparr>height := height x2, width := width x2,
           val := Pad [(int (width x2) - int (width u)) div 2,
                       int (width x2) - int (width u) - (int (width x2) - int (width u)) div 2,
                       (int (height x2) - int (height u)) div 2,
                       int (height x2) - int (height u) - (int (height x2) - int (height u)) div 2]
                    (val u)\<rparr>"
  by (auto simp: spec_pad_def F_pad_def Let_def)

lemma stage_channels_eq:
  assumes "UNet_features tr (UNet ci k bl b) x = Inr s"
  shows "stage_channels s =
    [b, b * 2, b * 4, b * 8, b * 16 div (if bl then 2 else 1),
     b * 8 div (if bl then 2 else 1), b * 4 div (if bl then 2 else 1),
     b * 2 div (if bl then 2 else 1), b]"
  using UNet_features_D(6-14) [OF assms]
  by (simp add: stage_channels_def sizes_def)

lemma stage_heights_widths:
  assumes "UNet_features tr u x = Inr s" and "u = UNet ci k bl b"
  shows "height (dec1 s) = height (enc4 s)" "width (dec1 s) = width (enc4 s)"
    "height (dec2 s) = height (enc3 s)" "width (dec2 s) = width (enc3 s)"
    "height (dec3 s) = height (enc2 s)" "width (dec3 s) = width (enc2 s)"
    "height (dec4 s) = height (enc1 s)" "width (dec4 s) = width (enc1 s)"
proof -
  note st = UNet_features_stages [OF assms(1), unfolded assms(2) UNet_sel]
  show "height (dec1 s) = height (enc4 s)" "width (dec1 s) = width (enc4 s)"
    by (rule Up_D(10,11) [OF st(6)])+
  show "height (dec2 s) = height (enc3 s)" "width (dec2 s) = width (enc3 s)"
    by (rule Up_D(10,11) [OF st(7)])+
  show "height (dec3 s) = height (enc2 s)" "width (dec3 s) = width (enc2 s)"
    by (rule Up_D(10,11) [OF st(8)])+
  show "height (dec4 s) = height (enc1 s)" "width (dec4 s) = width (enc1 s)"
    by (rule Up_D(10,11) [OF st(9)])+
qed




section \<open>The claims\<close>

subsection \<open>C1: the shape of the output\<close>

text \<open>
  C1, as stated: for every input of shape \<open>(N, C_in, H, W)\<close> with the configured channel
  count and \<open>H\<close>, \<open>W\<close> divisible by 16, the forward pass returns a tensor of shape
  \<open>(N, num_classes, H, W)\<close>, under every configuration. This fails: a module in training
  mode, as constructed, raises on the input \<open>(1, 1, 16, 16)\<close>, whose bottleneck has a
  single value per channel, and an empty image, whose height and width 0 are divisible
  by 16, is refused by the first convolution in either mode.
\<close>

theorem UNet_forward_small_batch_counterexample:
  "UNet_forward True (UNet 1 4 True 64) (input_tensor 1 1 16 16) = Inl SingleValuePerChannel \<and>
   UNet_forward False (UNet 1 4 True 64) (input_tensor 1 1 0 0) = Inl KernelTooLarge"
  by (simp add: UNet_forward_Inl UNet_error_def input_tensor_def)

text \<open>
  C1, amended: for every configuration with a positive input channel count, class count
  and base width and either upsampling strategy, and every input of shape
  \<open>(N, C_in, H, W)\<close> with the configured channel count and \<open>H\<close>, \<open>W\<close> positive multiples
  of 16, the forward pass returns a tensor of shape \<open>(N, num_classes, H, W)\<close>, provided
  the module is in evaluation mode or \<open>N * (H div 16) * (W div 16)\<close> is not 1.
\<close>

theorem UNet_forward_shape:
  assumes "0 < ci" and "0 < k" and "0 < b"
    and "channels x = ci"
    and "0 < height x" and "16 dvd height x"
    and "0 < width x" and "16 dvd width x"
    and "training \<longrightarrow> batch x * (height x div 16) * (width x div 16) \<noteq> 1"
  shows "\<exists>y. UNet_forward training (UNet ci k bl b) x = Inr y \<and>
           sizes y = (batch x, k, height x, width x)"
proof -
  have "16 \<le> height x" "16 \<le> width x"
    using assms(5-8) by (auto dest: dvd_imp_le)
  with assms have "UNet_error training ci k b x = None"
    by (simp add: UNet_error_None)
  then have "map_sum id sizes (UNet_forward training (UNet ci k bl b) x) =
      Inr (batch x, k, height x, width x)"
    by (simp add: UNet_forward_result)
  then show ?thesis
    by (simp add: map_sum_eq_Inr)
qed

text \<open>
  The specification's scenario: base width 64, input \<open>(1, 1, 256, 256)\<close>, bilinear
  strategy, 4 classes, here in training mode.
\<close>

theorem UNet_forward_shape_witness:
  "\<exists>y. UNet_forward True (UNet 1 4 True 64) (input_tensor 1 1 256 256) = Inr y \<and>
     sizes y = (1, 4, 256, 256)"
  using UNet_forward_shape [of 1 4 64 "input_tensor 1 1 256 256" True True]
  by (simp add: input_tensor_def)

subsection \<open>C5: the ConvBlock\<close>

text \<open>
  C5, as stated: for every input with \<open>C_in\<close> channels the ConvBlock produces a tensor
  with \<open>C_out\<close> channels and the same height and width, by two passes of (3x3
  convolution with padding 1 and no bias, batch normalisation, rectifier). This fails:
  in training mode the block raises on an input with a single value per channel, and
  in either mode on an input without rows or columns.
\<close>

theorem DoubleConv_single_value_counterexample:
  "forward True (DoubleConv 1 64 None) (input_tensor 1 1 1 1) = Inl SingleValuePerChannel \<and>
   forward False (DoubleConv 1 64 None) (input_tensor 1 1 0 0) = Inl KernelTooLarge"
  by (simp add: forward_DoubleConv input_tensor_def)

text \<open>
  C5, amended: the block is the two passes, the first from \<open>C_in\<close> to \<open>C_mid\<close>, the
  second from \<open>C_mid\<close> to \<open>C_out\<close>, with \<open>C_mid\<close> defaulting to \<open>C_out\<close>; for
  positive \<open>C_in\<close>, \<open>C_mid\<close> and \<open>C_out\<close> and every input with \<open>C_in\<close> channels, at
  least one row and one column and, when the module is in training mode, more than one
  value per channel, the first pass produces \<open>C_mid\<close> channels and the block produces
  \<open>C_out\<close> channels, both at the input's batch size, height and width.
\<close>

theorem DoubleConv_contract:
  assumes "channels x = ci" and "0 < ci" and "0 < co"
    and "m = (case mid of None \<Rightarrow> co | Some c \<Rightarrow> c)" and "0 < m"
    and "0 < height x" and "0 < width x"
    and "training \<longrightarrow> batch x * height x * width x \<noteq> 1"
  shows "DoubleConv ci co mid = Sequential (spec_pass ci m @ spec_pass m co) \<and>
    (\<exists>z y. forward_seq training (spec_pass ci m) x = Inr z \<and>
            sizes z = (batch x, m, height x, width x) \<and>
            forward_seq training (spec_pass m co) z = Inr y \<and>
            sizes y = (batch x, co, height x, width x) \<and>
            forward training (DoubleConv ci co mid) x = Inr y)"
  using assms
  by (simp add: DoubleConv_spec spec_ConvBlock_def DoubleConv_def Let_def spec_pass_def
      conv2d_def batch_norm2d_def relu_def sizes_def)

theorem DoubleConv_contract_witness:
  "DoubleConv 3 64 None = Sequential (spec_pass 3 64 @ spec_pass 64 64) \<and>
    (\<exists>z y. forward_seq True (spec_pass 3 64) (input_tensor 2 3 5 7) = Inr z \<and>
            sizes z = (2, 64, 5, 7) \<and>
            forward_seq True (spec_pass 64 64) z = Inr y \<and>
            sizes y = (2, 64, 5, 7) \<and>
            forward True (DoubleConv 3 64 None) (input_tensor 2 3 5 7) = Inr y)"
proof -
  let ?x = "input_tensor 2 3 5 7"
  have t: "DoubleConv 3 64 None = Sequential (spec_pass 3 64 @ spec_pass 64 64) \<and>
    (\<exists>z y. forward_seq True (spec_pass 3 64) ?x = Inr z \<and>
            sizes z = (batch ?x, 64, height ?x, width ?x) \<and>
            forward_seq True (spec_pass 64 64) z = Inr y \<and>
            sizes y = (batch ?x, 64, height ?x, width ?x) \<and>
            forward True (DoubleConv 3 64 None) ?x = Inr y)"
    by (rule DoubleConv_contract) simp_all
  show ?thesis by (rule t [unfolded input_tensor_sel])
qed

subsection \<open>C6: the DownBlock\<close>

text \<open>
  C6, as stated: for every input the DownBlock first applies 2x2 max-pooling with stride
  2, which halves height and width by floor division, so that an odd dimension silently
  shrinks, and then one ConvBlock from \<open>C_in\<close> to \<open>C_out\<close>. This fails for the odd
  dimension 1: pooling raises instead of producing an empty tensor. It also fails for
  an input without channels, which pooling refuses.
\<close>

theorem Down_single_row_counterexample:
  "forward False (Down 64 128) (input_tensor 1 64 1 8) = Inl OutputTooSmall \<and>
   forward False (Down 0 128) (input_tensor 1 0 4 4) = Inl ExpectedNonEmpty"
  by (simp add: forward_Down input_tensor_def)

text \<open>
  C6, amended: the DownBlock is 2x2 max-pooling with stride 2 followed by one ConvBlock
  from \<open>C_in\<close> to \<open>C_out\<close>; for every input with at least one channel, two rows and
  two columns the pooling returns the input's batch size and channels at height
  \<open>H div 2\<close> and width \<open>W div 2\<close>, and the block's result is the ConvBlock's on that
  tensor.
\<close>

theorem Down_contract:
  assumes "0 < channels x" and "2 \<le> height x" and "2 \<le> width x"
  shows "Down ci co = spec_DownBlock ci co \<and>
    (\<exists>p. forward training (MaxPool2d 2 2) x = Inr p \<and>
         sizes p = (batch x, channels x, height x div 2, width x div 2) \<and>
         forward training (Down ci co) x = forward training (spec_ConvBlock ci co None) p)"
  using assms halve [of "height x"] halve [of "width x"]
  by (simp add: Down_spec [symmetric] Down_def DoubleConv_spec [symmetric] max_pool2d_def
      sizes_def)

theorem Down_contract_witness:
  "Down 64 128 = spec_DownBlock 64 128 \<and>
    (\<exists>p. forward True (MaxPool2d 2 2) (input_tensor 1 64 7 9) = Inr p \<and>
         sizes p = (1, 64, 3, 4) \<and>
         forward True (Down 64 128) (input_tensor 1 64 7 9) =
           forward True (spec_ConvBlock 64 128 None) p)"
proof -
  let ?x = "input_tensor 1 64 7 9"
  have d: "(7::nat) div 2 = 3" "(9::nat) div 2 = 4" by simp_all
  have t: "Down 64 128 = spec_DownBlock 64 128 \<and>
    (\<exists>p. forward True (MaxPool2d 2 2) ?x = Inr p \<and>
         sizes p = (batch ?x, channels ?x, height ?x div 2, width ?x div 2) \<and>
         forward True (Down 64 128) ?x = forward True (spec_ConvBlock 64 128 None) p)"
    by (rule Down_contract) simp_all
  show ?thesis by (rule t [unfolded input_tensor_sel d])
qed

subsection \<open>C7: the upsampling strategy\<close>

text \<open>
  C7: under every configuration and on every input, the forward pass with interpolation
  and the forward pass with transpose-convolution return the same shape (and raise
  the same exception where they raise); whenever a forward pass returns, its output has
  one channel per configured class.
\<close>

theorem upsampling_flag_same_shape:
  "map_sum id sizes (UNet_forward training (UNet ci k True b) x) =
   map_sum id sizes (UNet_forward training (UNet ci k False b) x) \<and>
   (UNet_forward training (UNet ci k bl b) x = Inr y \<longrightarrow> channels y = k)"
proof -
  have "channels y = k" if "UNet_forward training (UNet ci k bl b) x = Inr y"
    using UNet_forward_D(7) [OF that] by (simp add: sizes_def)
  then show ?thesis
    by (simp add: UNet_forward_result)
qed

text \<open>
  The specification's second scenario: base width 32, input \<open>(2, 3, 128, 160)\<close>, 2
  classes.
\<close>

theorem upsampling_flag_same_shape_witness:
  "map_sum id sizes (UNet_forward True (UNet 3 2 True 32) (input_tensor 2 3 128 160)) =
   map_sum id sizes (UNet_forward True (UNet 3 2 False 32) (input_tensor 2 3 128 160)) \<and>
   (\<exists>y. UNet_forward True (UNet 3 2 False 32) (input_tensor 2 3 128 160) = Inr y \<and>
        channels y = 2)"
proof -
  obtain y where y: "UNet_forward True (UNet 3 2 False 32) (input_tensor 2 3 128 160) = Inr y"
    using UNet_forward_ok [of 32 2 "input_tensor 2 3 128 160" 3 True False]
    by auto
  from upsampling_flag_same_shape
    [of True 3 2 32 "input_tensor 2 3 128 160" False y] y
  show ?thesis by simp
qed

subsection \<open>C2: the steps of the UpBlock\<close>

text \<open>
  C2: for every pair of inputs \<open>x1\<close>, \<open>x2\<close> the UpBlock's forward pass is the five steps
  of the specification in their order: it upsamples \<open>x1\<close> by factor 2, by corner-aligned
  bilinear interpolation when the flag is set and otherwise by a transpose-convolution
  from \<open>C\<close> to \<open>C div 2\<close> channels; it takes the differences of height and width
  between \<open>x2\<close> and the upsampled \<open>x1\<close>; it pads by \<open>difference div 2\<close> on the leading
  edge and the remainder on the trailing edge of each axis; it concatenates \<open>x2\<close> and
  the padded \<open>x1\<close> along the channels, \<open>x2\<close> first; it applies one ConvBlock. The
  steps' results are read off a pass that returns.
\<close>

theorem Up_forward_steps:
  "Up_forward training (Up c co bl) x1 x2 =
     spec_UpBlock training bl c (spec_ConvBlock c co (if bl then Some (c div 2) else None)) x1 x2 \<and>
   (\<forall>u. spec_upsample bl c x1 = Inr u \<longrightarrow>
      height u = 2 * height x1 \<and> width u = 2 * width x1 \<and>
      channels u = (if bl then channels x1 else c div 2) \<and>
      val u = Layer (if bl then Upsample 2 ''bilinear'' True
                     else ConvTranspose2d c (c div 2) 2 2) (val x1)) \<and>
   (\<forall>y. Up_forward training (Up c co bl) x1 x2 = Inr y \<longrightarrow>
      (\<exists>u p xc. spec_upsample bl c x1 = Inr u \<and>
         spec_pad u x2 = Inr p \<and>
         val p = Pad [(int (width x2) - int (width u)) div 2,
                      int (width x2) - int (width u) - (int (width x2) - int (width u)) div 2,
                      (int (height x2) - int (height u)) div 2,
                      int (height x2) - int (height u) - (int (height x2) - int (height u)) div 2]
                   (val u) \<and>
         torch_cat x2 p = Inr xc \<and>
         val xc = Cat [val x2, val p] 1 \<and>
         channels xc = channels x2 + channels p \<and>
         forward training (spec_ConvBlock c co (if bl then Some (c div 2) else None)) xc = Inr y))"
proof (intro conjI allI impI)
  show eq: "Up_forward training (Up c co bl) x1 x2 =
     spec_UpBlock training bl c (spec_ConvBlock c co (if bl then Some (c div 2) else None)) x1 x2"
    by (simp add: Up_forward_spec conv_Up DoubleConv_spec)
  fix u assume u: "spec_upsample bl c x1 = Inr u"
  from spec_upsample_D [OF u]
  show "height u = 2 * height x1" "width u = 2 * width x1"
    "channels u = (if bl then channels x1 else c div 2)"
    by simp_all
  from u show "val u = Layer (if bl then Upsample 2 ''bilinear'' True
                     else ConvTranspose2d c (c div 2) 2 2) (val x1)"
    by (auto simp: spec_upsample_def upsample_def conv_transpose2d_def split: if_splits)
next
  fix y assume "Up_forward training (Up c co bl) x1 x2 = Inr y"
  then have "spec_UpBlock training bl c (spec_ConvBlock c co (if bl then Some (c div 2) else None))
      x1 x2 = Inr y"
    by (simp add: Up_forward_spec conv_Up DoubleConv_spec)
  then obtain u p xc where u: "spec_upsample bl c x1 = Inr u"
    and p: "spec_pad u x2 = Inr p" and xc: "torch_cat x2 p = Inr xc"
    and y: "forward training (spec_ConvBlock c co (if bl then Some (c div 2) else None)) xc = Inr y"
    unfolding spec_UpBlock_def bind_eq_Inr by blast
  from p have vp: "val p = Pad [(int (width x2) - int (width u)) div 2,
                      int (width x2) - int (width u) - (int (width x2) - int (width u)) div 2,
                      (int (height x2) - int (height u)) div 2,
                      int (height x2) - int (height u) - (int (height x2) - int (height u)) div 2]
                   (val u)"
    by (simp add: spec_pad_Inr)
  from xc have c: "val xc = Cat [val x2, val p] 1" "channels xc = channels x2 + channels p"
    by (auto simp: torch_cat_def split: if_splits)
  from u p vp xc c y
  show "\<exists>u p xc. spec_upsample bl c x1 = Inr u \<and>
         spec_pad u x2 = Inr p \<and>
         val p = Pad [(int (width x2) - int (width u)) div 2,
                      int (width x2) - int (width u) - (int (width x2) - int (width u)) div 2,
                      (int (height x2) - int (height u)) div 2,
                      int (height x2) - int (height u) - (int (height x2) - int (height u)) div 2]
                   (val u) \<and>
         torch_cat x2 p = Inr xc \<and>
         val xc = Cat [val x2, val p] 1 \<and>
         channels xc = channels x2 + channels p \<and>
         forward training (spec_ConvBlock c co (if bl then Some (c div 2) else None)) xc = Inr y"
    by blast
qed



text \<open>
  An odd difference: a 3x3 tensor is upsampled to 6x6 and padded to the 7x7 of \<open>x2\<close>
  with nothing on the leading and one row and column on the trailing edge.
\<close>

theorem Up_forward_steps_witness:
  "Up_forward False (Up 16 4 True) (input_tensor 1 8 3 3) (input_tensor 1 8 7 7) =
     spec_UpBlock False True 16 (spec_ConvBlock 16 4 (Some 8))
       (input_tensor 1 8 3 3) (input_tensor 1 8 7 7) \<and>
   (\<exists>u. spec_upsample True 16 (input_tensor 1 8 3 3) = Inr u \<and>
      height u = 6 \<and> width u = 6 \<and> channels u = 8) \<and>
   (\<exists>y u p xc.
      Up_forward False (Up 16 4 True) (input_tensor 1 8 3 3) (input_tensor 1 8 7 7) = Inr y \<and>
      sizes y = (1, 4, 7, 7) \<and>
      spec_upsample True 16 (input_tensor 1 8 3 3) = Inr u \<and>
      spec_pad u (input_tensor 1 8 7 7) = Inr p \<and>
      val p = Pad [0, 1, 0, 1] (val u) \<and>
      torch_cat (input_tensor 1 8 7 7) p = Inr xc \<and>
      val xc = Cat [Data 0, val p] 1 \<and>
      channels xc = 16)"
proof -
  let ?x1 = "input_tensor 1 8 3 3" and ?x2 = "input_tensor 1 8 7 7"
  let ?U = "\<lparr>batch = 1, channels = 8, height = 6, width = 6,
             val = Layer (Upsample 2 ''bilinear'' True) (Data 0)\<rparr>"
  note t = Up_forward_steps [of False 16 4 True ?x1 ?x2]
  have U: "spec_upsample True 16 ?x1 = Inr ?U"
    by (simp add: spec_upsample_def upsample_def input_tensor_def)
  have c1: "Up_forward False (Up 16 4 True) ?x1 ?x2 =
     spec_UpBlock False True 16 (spec_ConvBlock 16 4 (Some 8)) ?x1 ?x2"
    using t by simp
  from t U have "height ?U = 2 * height ?x1 \<and> width ?U = 2 * width ?x1 \<and>
      channels ?U = (if True then channels ?x1 else 16 div 2)"
    by blast
  with U have c2: "\<exists>u. spec_upsample True 16 ?x1 = Inr u \<and>
      height u = 6 \<and> width u = 6 \<and> channels u = 8"
    by simp
  obtain y where y: "Up_forward False (Up 16 4 True) ?x1 ?x2 = Inr y"
    and sy: "sizes y = (1, 4, 7, 7)"
    by (simp add: Up_Inr sizes_def)
  from t y obtain u p xc where u: "spec_upsample True 16 ?x1 = Inr u"
    and p: "spec_pad u ?x2 = Inr p"
    and vp: "val p = Pad [(int (width ?x2) - int (width u)) div 2,
                      int (width ?x2) - int (width u) - (int (width ?x2) - int (width u)) div 2,
                      (int (height ?x2) - int (height u)) div 2,
                      int (height ?x2) - int (height u) - (int (height ?x2) - int (height u)) div 2]
                   (val u)"
    and xc: "torch_cat ?x2 p = Inr xc" and vx: "val xc = Cat [val ?x2, val p] 1"
    and cx: "channels xc = channels ?x2 + channels p"
    by blast
  from u U have uU: "u = ?U" by simp
  from p have "channels p = channels u" by (simp add: spec_pad_Inr)
  with cx uU have cx': "channels xc = 16" by simp
  from vp uU have vp': "val p = Pad [0, 1, 0, 1] (val u)" by simp
  from vx have vx': "val xc = Cat [Data 0, val p] 1" by simp
  from y sy u p vp' xc vx' cx'
  have c3: "\<exists>y u p xc.
      Up_forward False (Up 16 4 True) ?x1 ?x2 = Inr y \<and>
      sizes y = (1, 4, 7, 7) \<and>
      spec_upsample True 16 ?x1 = Inr u \<and>
      spec_pad u ?x2 = Inr p \<and>
      val p = Pad [0, 1, 0, 1] (val u) \<and>
      torch_cat ?x2 p = Inr xc \<and>
      val xc = Cat [Data 0, val p] 1 \<and>
      channels xc = 16"
    by blast
  from c1 c2 c3 show ?thesis by blast
qed

subsection \<open>C9: the pad amounts\<close>

text \<open>
  C9: whatever the sign of the differences \<open>diff_y\<close> and \<open>diff_x\<close> between \<open>x2\<close> and the
  upsampled \<open>x1\<close>, the two pad amounts of an axis add up to the difference, so the call
  of \<^verbatim>\<open>F.pad\<close> returns and \<open>x1\<close> has the height and width of \<open>x2\<close> after it; when the
  upsampled \<open>x1\<close> is the larger one, both amounts are at most 0, and the call removes
  rows and columns instead of adding them.
\<close>

theorem Up_pad_matches_skip:
  assumes "forward training (up self) x1 = Inr u"
    and "diff_y = int (height x2) - int (height u)"
    and "diff_x = int (width x2) - int (width u)"
  shows "diff_x div 2 + (diff_x - diff_x div 2) = diff_x \<and>
    diff_y div 2 + (diff_y - diff_y div 2) = diff_y \<and>
    Up_pad training self x1 x2 =
      F_pad u (diff_x div 2, diff_x - diff_x div 2, diff_y div 2, diff_y - diff_y div 2) \<and>
    (\<exists>p. Up_pad training self x1 x2 = Inr p \<and>
         height p = height x2 \<and> width p = width x2 \<and>
         batch p = batch u \<and> channels p = channels u) \<and>
    (height x2 \<le> height u \<longrightarrow> diff_y div 2 \<le> 0 \<and> diff_y - diff_y div 2 \<le> 0) \<and>
    (width x2 \<le> width u \<longrightarrow> diff_x div 2 \<le> 0 \<and> diff_x - diff_x div 2 \<le> 0)"
proof -
  have "Up_pad training self x1 x2 =
      F_pad u (diff_x div 2, diff_x - diff_x div 2, diff_y div 2, diff_y - diff_y div 2)"
    using assms by (simp add: Up_pad_def Let_def)
  moreover have "\<exists>p. Up_pad training self x1 x2 = Inr p \<and>
         height p = height x2 \<and> width p = width x2 \<and>
         batch p = batch u \<and> channels p = channels u"
    using assms(1) by (simp add: Up_pad_Inr)
  moreover have "diff_y div 2 \<le> 0 \<and> diff_y - diff_y div 2 \<le> 0" if "height x2 \<le> height u"
    using that assms(2) by linarith
  moreover have "diff_x div 2 \<le> 0 \<and> diff_x - diff_x div 2 \<le> 0" if "width x2 \<le> width u"
    using that assms(3) by linarith
  ultimately show ?thesis by simp
qed



text \<open>
  An upsampled \<open>x1\<close> of 8x8 against an \<open>x2\<close> of 5x7: the differences are -3 and -1.
\<close>

theorem Up_pad_matches_skip_witness:
  "(\<exists>p. Up_pad False (Up 16 4 True) (input_tensor 1 8 4 4) (input_tensor 1 8 5 7) = Inr p \<and>
         height p = 5 \<and> width p = 7 \<and> batch p = 1 \<and> channels p = 8) \<and>
    ((-3) div 2 \<le> (0::int) \<and> -3 - (-3) div 2 \<le> (0::int)) \<and>
    ((-1) div 2 \<le> (0::int) \<and> -1 - (-1) div 2 \<le> (0::int))"
proof -
  let ?u = "\<lparr>batch = 1, channels = 8, height = 8, width = 8,
             val = Layer (Upsample 2 ''bilinear'' True) (Data 0)\<rparr>"
  let ?x2 = "input_tensor 1 8 5 7"
  have u: "forward False (up (Up 16 4 True)) (input_tensor 1 8 4 4) = Inr ?u"
    by (simp add: Up_def upsample_def input_tensor_def)
  have dy: "(-3::int) = int (height ?x2) - int (height ?u)"
    and dx: "(-1::int) = int (width ?x2) - int (width ?u)"
    by simp_all
  have le: "height ?x2 \<le> height ?u" "width ?x2 \<le> width ?u"
    by simp_all
  note t = Up_pad_matches_skip [OF u dy dx]
  from t have "\<exists>p. Up_pad False (Up 16 4 True) (input_tensor 1 8 4 4) ?x2 = Inr p \<and>
      height p = height ?x2 \<and> width p = width ?x2 \<and>
      batch p = batch ?u \<and> channels p = channels ?u"
    by blast
  then have "\<exists>p. Up_pad False (Up 16 4 True) (input_tensor 1 8 4 4) ?x2 = Inr p \<and>
      height p = 5 \<and> width p = 7 \<and> batch p = 1 \<and> channels p = 8"
    by simp
  moreover from t le have "(-3) div 2 \<le> (0::int) \<and> -3 - (-3) div 2 \<le> (0::int)"
    by blast
  moreover from t le have "(-1) div 2 \<le> (0::int) \<and> -1 - (-1) div 2 \<le> (0::int)"
    by blast
  ultimately show ?thesis by blast
qed

subsection \<open>C3: the channel widths\<close>

text \<open>
  C3, as stated: for every base width \<open>b\<close> the encoder's outputs have \<open>b\<close>, \<open>2b\<close>,
  \<open>4b\<close>, \<open>8b\<close> and \<open>16b\<close> channels, the decoder mirrors this in reverse, and the
  reduction factor 2 is applied throughout the decoder when interpolation is selected.
  This fails with interpolation and the default base width 64: the deepest encoder
  output has 512 channels, not 1024, because the factor is applied to it as well, and
  the last decoder output has 64 channels, not 32, because the factor is not applied
  to it. The list holds the channels of \<^verbatim>\<open>x1\<close> to \<^verbatim>\<open>x5\<close> and of \<^verbatim>\<open>x\<close> after
  \<^verbatim>\<open>up1\<close> to \<^verbatim>\<open>up4\<close>.
\<close>

theorem bilinear_channel_widths_counterexample:
  "map_sum id stage_channels
     (UNet_features False (UNet 1 4 True 64) (input_tensor 1 1 16 16)) =
   Inr [64, 128, 256, 512, 512, 256, 128, 64, 64]"
proof -
  obtain s where s: "UNet_features False (UNet 1 4 True 64) (input_tensor 1 1 16 16) = Inr s"
    using UNet_features_ok [of 64 "input_tensor 1 1 16 16" 1 False 4 True] by auto
  from stage_channels_eq [OF s] s show ?thesis by simp
qed

text \<open>
  C3, amended: for every base width \<open>b\<close>, with \<open>factor\<close> 2 when interpolation is
  selected and 1 when transpose-convolution is selected, the encoder's outputs have
  \<open>b\<close>, \<open>2b\<close>, \<open>4b\<close>, \<open>8b\<close> and \<open>16b div factor\<close> channels and the decoder's outputs
  have \<open>8b div factor\<close>, \<open>4b div factor\<close>, \<open>2b div factor\<close> and \<open>b\<close> channels: the
  factor is applied to the deepest encoder level and to the first three decoder stages.
\<close>

theorem UNet_channel_widths:
  assumes "u = UNet ci k bl b" and "factor = (if bl then 2 else 1)"
  shows "in_conv u = DoubleConv ci b None \<and>
    down1 u = Down b (2 * b) \<and>
    down2 u = Down (2 * b) (4 * b) \<and>
    down3 u = Down (4 * b) (8 * b) \<and>
    down4 u = Down (8 * b) (16 * b div factor) \<and>
    up1 u = Up (16 * b) (8 * b div factor) bl \<and>
    up2 u = Up (8 * b) (4 * b div factor) bl \<and>
    up3 u = Up (4 * b) (2 * b div factor) bl \<and>
    up4 u = Up (2 * b) b bl \<and>
    (\<forall>s. UNet_features training u x = Inr s \<longrightarrow>
       stage_channels s =
         [b, 2 * b, 4 * b, 8 * b, 16 * b div factor,
          8 * b div factor, 4 * b div factor, 2 * b div factor, b])"
proof -
  have "stage_channels s =
         [b, 2 * b, 4 * b, 8 * b, 16 * b div factor,
          8 * b div factor, 4 * b div factor, 2 * b div factor, b]"
    if "UNet_features training u x = Inr s" for s
    using stage_channels_eq [OF that [unfolded assms(1)]] assms(2)
    by (simp add: mult.commute)
  then show ?thesis
    by (simp add: assms UNet_sel mult.commute)
qed

text \<open>
  The specification's second scenario, with transpose-convolution: nothing is halved.
\<close>

theorem UNet_channel_widths_witness:
  "down4 (UNet 3 2 False 32) = Down 256 512 \<and>
   up1 (UNet 3 2 False 32) = Up 512 256 False \<and>
   up4 (UNet 3 2 False 32) = Up 64 32 False \<and>
   (\<exists>s. UNet_features True (UNet 3 2 False 32) (input_tensor 2 3 128 160) = Inr s \<and>
      stage_channels s = [32, 64, 128, 256, 512, 256, 128, 64, 32])"
proof -
  let ?x = "input_tensor 2 3 128 160"
  have f: "(1::nat) = (if False then 2 else 1)" by simp
  note t = UNet_channel_widths [OF refl f, where ci = 3 and k = 2 and b = 32
      and training = True and x = ?x]
  obtain s where s: "UNet_features True (UNet 3 2 False 32) ?x = Inr s"
    using UNet_features_ok [of 32 ?x 3 True 2 False] by auto
  from t s have "stage_channels s =
      [32, 2 * 32, 4 * 32, 8 * 32, 16 * 32 div 1, 8 * 32 div 1, 4 * 32 div 1, 2 * 32 div 1, 32]"
    by blast
  then have c: "stage_channels s = [32, 64, 128, 256, 512, 256, 128, 64, 32]"
    by simp
  from t have "down4 (UNet 3 2 False 32) = Down (8 * 32) (16 * 32 div 1)"
    "up1 (UNet 3 2 False 32) = Up (16 * 32) (8 * 32 div 1) False"
    "up4 (UNet 3 2 False 32) = Up (2 * 32) 32 False"
    by blast+
  then have "down4 (UNet 3 2 False 32) = Down 256 512"
    "up1 (UNet 3 2 False 32) = Up 512 256 False"
    "up4 (UNet 3 2 False 32) = Up 64 32 False"
    by simp_all
  with s c show ?thesis by blast
qed

subsection \<open>C4: the decoder stages and their skip tensors\<close>

text \<open>
  C4: at each of the four decoder stages the UpBlock's output has the height and width
  of the stage's skip tensor \<open>x2\<close>, whatever the input's height and width, divisible by
  16 or not. It holds of every call of an UpBlock that returns, hence of the four stages
  of every run that reaches them; and a run reaches them on every input of at least 16
  rows and 16 columns with the configured channel count, under a positive input channel
  count and base width, in evaluation mode or with more than one value per channel at
  the bottleneck.
\<close>

theorem decoder_matches_skip:
  "(\<forall>y. Up_forward training (Up c co bl) x1 x2 = Inr y \<longrightarrow>
      height y = height x2 \<and> width y = width x2) \<and>
   (\<forall>s. UNet_features training (UNet ci k bl b) x = Inr s \<longrightarrow>
      height (dec1 s) = height (enc4 s) \<and> width (dec1 s) = width (enc4 s) \<and>
      height (dec2 s) = height (enc3 s) \<and> width (dec2 s) = width (enc3 s) \<and>
      height (dec3 s) = height (enc2 s) \<and> width (dec3 s) = width (enc2 s) \<and>
      height (dec4 s) = height (enc1 s) \<and> width (dec4 s) = width (enc1 s)) \<and>
   (0 < ci \<and> 0 < b \<and> channels x = ci \<and> 16 \<le> height x \<and> 16 \<le> width x \<and>
    (training \<longrightarrow> batch x * (height x div 16) * (width x div 16) \<noteq> 1) \<longrightarrow>
      (\<exists>s. UNet_features training (UNet ci k bl b) x = Inr s))"
proof (intro conjI allI impI)
  fix y assume "Up_forward training (Up c co bl) x1 x2 = Inr y"
  then show "height y = height x2" "width y = width x2"
    by (rule Up_D(10,11))+
next
  fix s assume s: "UNet_features training (UNet ci k bl b) x = Inr s"
  note e = stage_heights_widths [OF s refl]
  show "height (dec1 s) = height (enc4 s)" "width (dec1 s) = width (enc4 s)"
    "height (dec2 s) = height (enc3 s)" "width (dec2 s) = width (enc3 s)"
    "height (dec3 s) = height (enc2 s)" "width (dec3 s) = width (enc2 s)"
    "height (dec4 s) = height (enc1 s)" "width (dec4 s) = width (enc1 s)"
    by (rule e)+
next
  assume "0 < ci \<and> 0 < b \<and> channels x = ci \<and> 16 \<le> height x \<and> 16 \<le> width x \<and>
    (training \<longrightarrow> batch x * (height x div 16) * (width x div 16) \<noteq> 1)"
  then show "\<exists>s. UNet_features training (UNet ci k bl b) x = Inr s"
    by (intro UNet_features_ok) simp_all
qed

text \<open>
  A 17x23 input: the skip tensors are 17x23, 8x11, 4x5 and 2x2, and three of the four
  stages pad an odd difference.
\<close>

theorem decoder_matches_skip_witness:
  "\<exists>s. UNet_features True (UNet 1 4 True 64) (input_tensor 2 1 17 23) = Inr s \<and>
      (height (dec1 s), width (dec1 s)) = (2, 2) \<and>
      (height (enc4 s), width (enc4 s)) = (2, 2) \<and>
      (height (dec2 s), width (dec2 s)) = (4, 5) \<and>
      (height (enc3 s), width (enc3 s)) = (4, 5) \<and>
      (height (dec3 s), width (dec3 s)) = (8, 11) \<and>
      (height (enc2 s), width (enc2 s)) = (8, 11) \<and>
      (height (dec4 s), width (dec4 s)) = (17, 23) \<and>
      (height (enc1 s), width (enc1 s)) = (17, 23)"
proof -
  let ?x = "input_tensor 2 1 17 23"
  note t = decoder_matches_skip [where training = True and c = 0 and co = 0 and bl = True
      and ?x1.0 = ?x and ?x2.0 = ?x and ci = 1 and k = 4 and b = 64 and x = ?x]
  have "0 < (1::nat) \<and> 0 < (64::nat) \<and> channels ?x = 1 \<and> 16 \<le> height ?x \<and>
    16 \<le> width ?x \<and>
    (True \<longrightarrow> batch ?x * (height ?x div 16) * (width ?x div 16) \<noteq> 1)"
    by simp
  with t obtain s where s: "UNet_features True (UNet 1 4 True 64) ?x = Inr s"
    by blast
  from t s have eq: "height (dec1 s) = height (enc4 s)" "width (dec1 s) = width (enc4 s)"
      "height (dec2 s) = height (enc3 s)" "width (dec2 s) = width (enc3 s)"
      "height (dec3 s) = height (enc2 s)" "width (dec3 s) = width (enc2 s)"
      "height (dec4 s) = height (enc1 s)" "width (dec4 s) = width (enc1 s)"
    by blast+
  from UNet_features_D(6-9) [OF s]
  have "height (enc1 s) = 17" "width (enc1 s) = 23" "height (enc2 s) = 8" "width (enc2 s) = 11"
    "height (enc3 s) = 4" "width (enc3 s) = 5" "height (enc4 s) = 2" "width (enc4 s) = 2"
    by (simp_all add: sizes_def)
  with eq s show ?thesis by simp
qed

subsection \<open>C10: the channels at the concatenation\<close>



end
